theory Spec2Isabelle
  imports Main "HOL-Library.Word"
begin

section \<open>The heap-file layer of heapfile.cpp\<close>

text \<open>
  The development embeds \<^verbatim>\<open>src/heapFiles/heapfile.cpp\<close>: \<^verbatim>\<open>createHeapFile\<close>, the
  classes \<^verbatim>\<open>HeapFile\<close>, \<^verbatim>\<open>HeapFileScan\<close> and \<^verbatim>\<open>InsertFileScan\<close>.  C++ \<^verbatim>\<open>int\<close> is
  HOL \<open>int\<close> where no overflow is involved and a 32-bit word where the code
  adds, subtracts or casts; a \<^verbatim>\<open>Page*\<close> is an address or \<^verbatim>\<open>NULL\<close>; every call into the
  database, buffer-manager and page layers (none of which is part of
  heapfile.cpp) goes through an explicit environment.
\<close>

subsection \<open>Statuses, record identifiers, records\<close>

text \<open>
  The status codes heapfile.cpp names, the ones the interface description adds, and
  \<open>OtherStatus\<close> for every other code of \<^verbatim>\<open>error.h\<close>.
\<close>

datatype Status =
    OK | FILEEXISTS | FILEEOF | BADSCANPARM | INVALIDRECLEN
  | NOSPACE | NORECORDS | ENDOFPAGE | BADPAGEPTR | OtherStatus nat

type_synonym byte = "8 word"

record RID =
  pageNo :: int
  slotNo :: int

definition NULLRID :: RID where
  "NULLRID = \<lparr>pageNo = -1, slotNo = -1\<rparr>"

text \<open>
  \<^verbatim>\<open>struct Record { void* data; int length; }\<close>: \<open>data_rec\<close> is the memory \<^verbatim>\<open>data\<close>
  points to, from that address on.
\<close>

record Record =
  data_rec :: "byte list"
  length_rec :: int

text \<open>
  The enumerations \<^verbatim>\<open>Datatype\<close> and \<^verbatim>\<open>Operator\<close>.  A C++ enum variable can hold a
  value outside its enumerators, which is what \<^verbatim>\<open>startScan\<close> tests for; such a value
  is \<open>BadDatatype n\<close> or \<open>BadOperator n\<close>.
\<close>

datatype Datatype = STRING | INTEGER | FLOAT | BadDatatype int

datatype Operator = LT | LTE | EQ | GTE | GT | NE | BadOperator int

type_synonym FilePtr = nat

datatype PagePtr = NULL | Frame nat

subsection \<open>The handle: class HeapFile and its subclass HeapFileScan\<close>

record HeapFile =
  filePtr :: FilePtr
  headerPage :: PagePtr
  headerPageNo :: int
  hdrDirtyFlag :: bool
  curPage :: PagePtr
  curPageNo :: int
  curDirtyFlag :: bool
  curRec :: RID

record HeapFileScan = HeapFile +
  offset_scan :: int
  length_scan :: int
  type_scan :: Datatype
  filter_scan :: "byte list option"
  op_scan :: Operator
  markedPageNo :: int
  markedRec :: RID

record FileHdrPage =
  fileName :: string
  firstPage :: int
  lastPage :: int
  pageCnt :: int
  recCnt :: int

subsection \<open>HeapFileScan::startScan\<close>

definition sizeof_int :: int where
  "sizeof_int = 4"

definition sizeof_float :: int where
  "sizeof_float = 4"

definition startScan ::
  "int \<Rightarrow> int \<Rightarrow> Datatype \<Rightarrow> byte list option \<Rightarrow> Operator \<Rightarrow>
   'a HeapFileScan_scheme \<Rightarrow> Status \<times> 'a HeapFileScan_scheme" where
  "startScan offset' length' type' filter' op' h =
     (if filter' = None then (OK, h\<lparr>filter_scan := None\<rparr>)
      else if (offset' < 0 \<or> length' < 1) \<or>
              (type' \<noteq> STRING \<and> type' \<noteq> INTEGER \<and> type' \<noteq> FLOAT) \<or>
              ((type' = INTEGER \<and> length' \<noteq> sizeof_int) \<or>
               (type' = FLOAT \<and> length' \<noteq> sizeof_float)) \<or>
              (op' \<noteq> LT \<and> op' \<noteq> LTE \<and> op' \<noteq> EQ \<and> op' \<noteq> GTE \<and> op' \<noteq> GT \<and> op' \<noteq> NE)
      then (BADSCANPARM, h)
      else (OK, h\<lparr>offset_scan := offset', length_scan := length', type_scan := type',
                   filter_scan := filter', op_scan := op'\<rparr>))"

subsection \<open>HeapFileScan::matchRec\<close>

text \<open>
  \<^verbatim>\<open>float diff\<close> is only ever compared with \<^verbatim>\<open>0.0\<close>, so its model keeps the class of
  the value: negative, zero, positive, or not a number.  Converting an \<^verbatim>\<open>int\<close> to
  \<^verbatim>\<open>float\<close> rounds, but keeps the sign and sends only 0 to 0.0.
\<close>

datatype fdiff = FNeg | FZero | FPos | FNaN

definition float_of_int :: "int \<Rightarrow> fdiff" where
  "float_of_int i = (if i < 0 then FNeg else if i = 0 then FZero else FPos)"

text \<open>
  \<^verbatim>\<open>memcpy(&iattr, p, length)\<close> on a little-endian machine: the bytes at \<open>p\<close>, lowest
  first, as a 32-bit \<^verbatim>\<open>int\<close>.
\<close>

fun le_bytes :: "byte list \<Rightarrow> int" where
  "le_bytes [] = 0"
| "le_bytes (b # bs) = uint b + 256 * le_bytes bs"

definition memcpy_int :: "byte list \<Rightarrow> int \<Rightarrow> 32 word" where
  "memcpy_int p n = word_of_int (le_bytes (take (nat n) p))"

text \<open>
  \<^verbatim>\<open>strncmp(a, b, n)\<close>: bytes compared as \<^verbatim>\<open>unsigned char\<close>, at most \<open>n\<close> of them, and
  not past a NUL; the end of the modelled memory reads as NUL.
\<close>

fun strncmp :: "byte list \<Rightarrow> byte list \<Rightarrow> nat \<Rightarrow> int" where
  "strncmp a b 0 = 0"
| "strncmp a b (Suc n) =
     (let x = (case a of [] \<Rightarrow> 0 | c # _ \<Rightarrow> c);
          y = (case b of [] \<Rightarrow> 0 | c # _ \<Rightarrow> c)
      in if x \<noteq> y then uint x - uint y
         else if x = 0 then 0
         else strncmp (tl a) (tl b) n)"

text \<open>
  \<open>int32 i\<close> is the value of a C++ \<^verbatim>\<open>int\<close> expression whose exact value is \<open>i\<close>: the
  32-bit two's complement number it wraps around to.
\<close>

definition int32 :: "int \<Rightarrow> int" where
  "int32 i = sint (word_of_int i :: 32 word)"

text \<open>
  The window test \<^verbatim>\<open>(offset + length - 1) >= rec.length\<close> adds in \<^verbatim>\<open>int\<close>, and the
  \<^verbatim>\<open>int\<close> subtraction \<^verbatim>\<open>iattr - ifltr\<close> is taken on 32-bit words: both wrap around
  where the C++ arithmetic overflows.  The \<^verbatim>\<open>FLOAT\<close> branch subtracts two IEEE
  values; their decoding is the parameter \<open>fsub\<close>.
\<close>

definition matchRec ::
  "(byte list \<Rightarrow> byte list \<Rightarrow> fdiff) \<Rightarrow> 'a HeapFileScan_scheme \<Rightarrow> Record \<Rightarrow> bool" where
  "matchRec fsub h rec =
     (case filter_scan h of
        None \<Rightarrow> True
      | Some fltr \<Rightarrow>
          if int32 (offset_scan h + length_scan h - 1) \<ge> length_rec rec then False
          else
            let attr = drop (nat (offset_scan h)) (data_rec rec);
                diff =
                  (case type_scan h of
                     INTEGER \<Rightarrow>
                       float_of_int (sint (memcpy_int attr (length_scan h)
                                           - memcpy_int fltr (length_scan h)))
                   | FLOAT \<Rightarrow>
                       fsub (take (nat (length_scan h)) attr) (take (nat (length_scan h)) fltr)
                   | STRING \<Rightarrow> float_of_int (strncmp attr fltr (nat (length_scan h)))
                   | BadDatatype _ \<Rightarrow> FZero)
            in (case op_scan h of
                  LT \<Rightarrow> diff = FNeg
                | LTE \<Rightarrow> diff = FNeg \<or> diff = FZero
                | EQ \<Rightarrow> diff = FZero
                | GTE \<Rightarrow> diff = FPos \<or> diff = FZero
                | GT \<Rightarrow> diff = FPos
                | NE \<Rightarrow> diff \<noteq> FZero
                | BadOperator _ \<Rightarrow> False))"

subsection \<open>The layers below: an environment\<close>

text \<open>
  heapfile.cpp calls the database layer (\<^verbatim>\<open>db\<close>), the buffer manager (\<^verbatim>\<open>bufMgr\<close>) and
  the methods of \<^verbatim>\<open>Page\<close> and \<^verbatim>\<open>File\<close>; their code is not part of heapfile.cpp.  They
  are the fields of an environment over a state \<open>'w\<close> of those layers (disk, open
  files, buffer pool, page memory).  A C++ reference parameter that the callee
  writes (\<^verbatim>\<open>Page*& page\<close>, \<^verbatim>\<open>int& pageNo\<close>, \<^verbatim>\<open>RID& rid\<close>) is passed in with its
  old value and comes back in the result, so an environment may leave it as it
  was.  \<^verbatim>\<open>const\<close> methods of a page only read \<open>'w\<close>.  \<open>e_hdr\<close> and \<open>e_hdr_upd\<close> read
  and write the page memory behind a \<^verbatim>\<open>FileHdrPage*\<close>.  \<open>uninit_*\<close> is what an
  uninitialised local of that type holds; \<open>PAGESIZE\<close> and \<open>DPFIXED\<close> are the
  constants of \<^verbatim>\<open>page.h\<close> and \<open>MAXNAMESIZE\<close> is the size of the array
  \<^verbatim>\<open>fileName\<close> of a \<^verbatim>\<open>FileHdrPage\<close>; \<open>e_fsub\<close> classifies the difference of two
  \<^verbatim>\<open>float\<close>s given by their bytes.
\<close>

record 'w Env =
  PAGESIZE :: int
  DPFIXED :: int
  MAXNAMESIZE :: nat
  e_createFile :: "string \<Rightarrow> 'w \<Rightarrow> Status \<times> 'w"
  e_openFile :: "string \<Rightarrow> FilePtr \<Rightarrow> 'w \<Rightarrow> Status \<times> FilePtr \<times> 'w"
  e_closeFile :: "FilePtr \<Rightarrow> 'w \<Rightarrow> Status \<times> 'w"
  e_destroyFile :: "string \<Rightarrow> 'w \<Rightarrow> Status \<times> 'w"
  e_getFirstPage :: "FilePtr \<Rightarrow> int \<Rightarrow> 'w \<Rightarrow> Status \<times> int"
  e_allocPage :: "FilePtr \<Rightarrow> int \<Rightarrow> PagePtr \<Rightarrow> 'w \<Rightarrow> Status \<times> int \<times> PagePtr \<times> 'w"
  e_readPage :: "FilePtr \<Rightarrow> int \<Rightarrow> PagePtr \<Rightarrow> 'w \<Rightarrow> Status \<times> PagePtr \<times> 'w"
  e_unPinPage :: "FilePtr \<Rightarrow> int \<Rightarrow> bool \<Rightarrow> 'w \<Rightarrow> Status \<times> 'w"
  e_init :: "PagePtr \<Rightarrow> int \<Rightarrow> 'w \<Rightarrow> 'w"
  e_getNextPage :: "PagePtr \<Rightarrow> int \<Rightarrow> 'w \<Rightarrow> Status \<times> int"
  e_setNextPage :: "PagePtr \<Rightarrow> int \<Rightarrow> 'w \<Rightarrow> 'w"
  e_firstRecord :: "PagePtr \<Rightarrow> RID \<Rightarrow> 'w \<Rightarrow> Status \<times> RID"
  e_nextRecord :: "PagePtr \<Rightarrow> RID \<Rightarrow> RID \<Rightarrow> 'w \<Rightarrow> Status \<times> RID"
  e_getRecord :: "PagePtr \<Rightarrow> RID \<Rightarrow> Record \<Rightarrow> 'w \<Rightarrow> Status \<times> Record"
  e_insertRecord :: "PagePtr \<Rightarrow> Record \<Rightarrow> RID \<Rightarrow> 'w \<Rightarrow> Status \<times> RID \<times> 'w"
  e_deleteRecord :: "PagePtr \<Rightarrow> RID \<Rightarrow> 'w \<Rightarrow> Status \<times> 'w"
  e_hdr :: "PagePtr \<Rightarrow> 'w \<Rightarrow> FileHdrPage"
  e_hdr_upd :: "PagePtr \<Rightarrow> FileHdrPage \<Rightarrow> 'w \<Rightarrow> 'w"
  e_fsub :: "byte list \<Rightarrow> byte list \<Rightarrow> fdiff"
  uninit_int :: int
  uninit_file :: FilePtr
  uninit_ptr :: PagePtr
  uninit_rid :: RID
  uninit_rec :: Record

text \<open>
  Every call heapfile.cpp makes into those layers is logged with its arguments and
  the status it returned, and so are its writes through the header pointer and
  \<^verbatim>\<open>markDirty\<close>.
\<close>

datatype Call =
    CreateFile string Status
  | OpenFile string Status
  | CloseFile FilePtr Status
  | DestroyFile string Status
  | GetFirstPage FilePtr Status
  | AllocPage FilePtr int PagePtr Status
  | ReadPage FilePtr int PagePtr Status
  | UnPinPage FilePtr int bool Status
  | PageInit PagePtr int
  | GetNextPage PagePtr Status
  | SetNextPage PagePtr int
  | FirstRecord PagePtr Status
  | NextRecord PagePtr RID Status
  | GetRecord PagePtr RID Status
  | InsertRecord PagePtr Record Status
  | DeleteRecord PagePtr RID Status
  | HdrWrite PagePtr
  | MarkDirty PagePtr

fun status_of :: "Call \<Rightarrow> Status option" where
  "status_of (CreateFile _ st) = Some st"
| "status_of (OpenFile _ st) = Some st"
| "status_of (CloseFile _ st) = Some st"
| "status_of (DestroyFile _ st) = Some st"
| "status_of (GetFirstPage _ st) = Some st"
| "status_of (AllocPage _ _ _ st) = Some st"
| "status_of (ReadPage _ _ _ st) = Some st"
| "status_of (UnPinPage _ _ _ st) = Some st"
| "status_of (PageInit _ _) = None"
| "status_of (GetNextPage _ st) = Some st"
| "status_of (SetNextPage _ _) = None"
| "status_of (FirstRecord _ st) = Some st"
| "status_of (NextRecord _ _ st) = Some st"
| "status_of (GetRecord _ _ st) = Some st"
| "status_of (InsertRecord _ _ st) = Some st"
| "status_of (DeleteRecord _ _ st) = Some st"
| "status_of (HdrWrite _) = None"
| "status_of (MarkDirty _) = None"

record 'w Mach =
  world :: 'w
  trace :: "Call list"

definition step :: "'w \<Rightarrow> Call \<Rightarrow> 'w Mach \<Rightarrow> 'w Mach" where
  "step w c m = \<lparr>world = w, trace = trace m @ [c]\<rparr>"

definition db_createFile :: "'w Env \<Rightarrow> string \<Rightarrow> 'w Mach \<Rightarrow> Status \<times> 'w Mach" where
  "db_createFile env name m =
     (case e_createFile env name (world m) of
        (st, w) \<Rightarrow> (st, step w (CreateFile name st) m))"

definition db_openFile ::
  "'w Env \<Rightarrow> string \<Rightarrow> FilePtr \<Rightarrow> 'w Mach \<Rightarrow> Status \<times> FilePtr \<times> 'w Mach" where
  "db_openFile env name file m =
     (case e_openFile env name file (world m) of
        (st, file', w) \<Rightarrow> (st, file', step w (OpenFile name st) m))"

definition db_closeFile :: "'w Env \<Rightarrow> FilePtr \<Rightarrow> 'w Mach \<Rightarrow> Status \<times> 'w Mach" where
  "db_closeFile env file m =
     (case e_closeFile env file (world m) of
        (st, w) \<Rightarrow> (st, step w (CloseFile file st) m))"

definition db_destroyFile :: "'w Env \<Rightarrow> string \<Rightarrow> 'w Mach \<Rightarrow> Status \<times> 'w Mach" where
  "db_destroyFile env name m =
     (case e_destroyFile env name (world m) of
        (st, w) \<Rightarrow> (st, step w (DestroyFile name st) m))"

definition File_getFirstPage ::
  "'w Env \<Rightarrow> FilePtr \<Rightarrow> int \<Rightarrow> 'w Mach \<Rightarrow> Status \<times> int \<times> 'w Mach" where
  "File_getFirstPage env file pageNo' m =
     (case e_getFirstPage env file pageNo' (world m) of
        (st, pn) \<Rightarrow> (st, pn, step (world m) (GetFirstPage file st) m))"

definition bufMgr_allocPage ::
  "'w Env \<Rightarrow> FilePtr \<Rightarrow> int \<Rightarrow> PagePtr \<Rightarrow> 'w Mach \<Rightarrow> Status \<times> int \<times> PagePtr \<times> 'w Mach" where
  "bufMgr_allocPage env file pageNo' page m =
     (case e_allocPage env file pageNo' page (world m) of
        (st, pn, p, w) \<Rightarrow> (st, pn, p, step w (AllocPage file pn p st) m))"

definition bufMgr_readPage ::
  "'w Env \<Rightarrow> FilePtr \<Rightarrow> int \<Rightarrow> PagePtr \<Rightarrow> 'w Mach \<Rightarrow> Status \<times> PagePtr \<times> 'w Mach" where
  "bufMgr_readPage env file pn page m =
     (case e_readPage env file pn page (world m) of
        (st, p, w) \<Rightarrow> (st, p, step w (ReadPage file pn p st) m))"

definition bufMgr_unPinPage ::
  "'w Env \<Rightarrow> FilePtr \<Rightarrow> int \<Rightarrow> bool \<Rightarrow> 'w Mach \<Rightarrow> Status \<times> 'w Mach" where
  "bufMgr_unPinPage env file pn dirty m =
     (case e_unPinPage env file pn dirty (world m) of
        (st, w) \<Rightarrow> (st, step w (UnPinPage file pn dirty st) m))"

definition Page_init :: "'w Env \<Rightarrow> PagePtr \<Rightarrow> int \<Rightarrow> 'w Mach \<Rightarrow> 'w Mach" where
  "Page_init env p pn m = step (e_init env p pn (world m)) (PageInit p pn) m"

definition Page_getNextPage ::
  "'w Env \<Rightarrow> PagePtr \<Rightarrow> int \<Rightarrow> 'w Mach \<Rightarrow> Status \<times> int \<times> 'w Mach" where
  "Page_getNextPage env p pageNo' m =
     (case e_getNextPage env p pageNo' (world m) of
        (st, pn) \<Rightarrow> (st, pn, step (world m) (GetNextPage p st) m))"

definition Page_setNextPage :: "'w Env \<Rightarrow> PagePtr \<Rightarrow> int \<Rightarrow> 'w Mach \<Rightarrow> 'w Mach" where
  "Page_setNextPage env p pn m = step (e_setNextPage env p pn (world m)) (SetNextPage p pn) m"

definition Page_firstRecord ::
  "'w Env \<Rightarrow> PagePtr \<Rightarrow> RID \<Rightarrow> 'w Mach \<Rightarrow> Status \<times> RID \<times> 'w Mach" where
  "Page_firstRecord env p rid m =
     (case e_firstRecord env p rid (world m) of
        (st, rid') \<Rightarrow> (st, rid', step (world m) (FirstRecord p st) m))"

definition Page_nextRecord ::
  "'w Env \<Rightarrow> PagePtr \<Rightarrow> RID \<Rightarrow> RID \<Rightarrow> 'w Mach \<Rightarrow> Status \<times> RID \<times> 'w Mach" where
  "Page_nextRecord env p cur rid m =
     (case e_nextRecord env p cur rid (world m) of
        (st, rid') \<Rightarrow> (st, rid', step (world m) (NextRecord p cur st) m))"

definition Page_getRecord ::
  "'w Env \<Rightarrow> PagePtr \<Rightarrow> RID \<Rightarrow> Record \<Rightarrow> 'w Mach \<Rightarrow> Status \<times> Record \<times> 'w Mach" where
  "Page_getRecord env p rid rec m =
     (case e_getRecord env p rid rec (world m) of
        (st, rec') \<Rightarrow> (st, rec', step (world m) (GetRecord p rid st) m))"

definition Page_insertRecord ::
  "'w Env \<Rightarrow> PagePtr \<Rightarrow> Record \<Rightarrow> RID \<Rightarrow> 'w Mach \<Rightarrow> Status \<times> RID \<times> 'w Mach" where
  "Page_insertRecord env p rec rid m =
     (case e_insertRecord env p rec rid (world m) of
        (st, rid', w) \<Rightarrow> (st, rid', step w (InsertRecord p rec st) m))"

definition Page_deleteRecord ::
  "'w Env \<Rightarrow> PagePtr \<Rightarrow> RID \<Rightarrow> 'w Mach \<Rightarrow> Status \<times> 'w Mach" where
  "Page_deleteRecord env p rid m =
     (case e_deleteRecord env p rid (world m) of
        (st, w) \<Rightarrow> (st, step w (DeleteRecord p rid st) m))"

definition hdr :: "'w Env \<Rightarrow> PagePtr \<Rightarrow> 'w Mach \<Rightarrow> FileHdrPage" where
  "hdr env p m = e_hdr env p (world m)"

definition hdr_upd :: "'w Env \<Rightarrow> PagePtr \<Rightarrow> FileHdrPage \<Rightarrow> 'w Mach \<Rightarrow> 'w Mach" where
  "hdr_upd env p v m = step (e_hdr_upd env p v (world m)) (HdrWrite p) m"

subsection \<open>createHeapFile and destroyHeapFile\<close>

text \<open>
  \<^verbatim>\<open>strcpy(hdrPage->fileName, fileName.c_str())\<close> copies the whole name, whatever its
  length.  The field \<open>fileName\<close> of the model is what the array holds up to its first
  NUL or its end, and \<open>strcpy_fileName n s\<close> is that content for an array of \<open>n\<close>
  characters after the copy: the name when it is shorter than \<open>n\<close>, and otherwise its
  first \<open>n\<close> characters, with no NUL after them.  The rest of such a name is written
  behind the array, over the four counters (which \<^verbatim>\<open>createHeapFile\<close> assigns right
  after the copy) and over whatever memory follows them, which is outside this model.
\<close>

definition strcpy_fileName :: "nat \<Rightarrow> string \<Rightarrow> string" where
  "strcpy_fileName n s = take n s"

text \<open>
  The status of the second \<^verbatim>\<open>allocPage\<close> is not assigned in the source, so the model
  drops it.  Early returns are the \<open>then\<close> branches.
\<close>

definition createHeapFile :: "'w Env \<Rightarrow> string \<Rightarrow> 'w Mach \<Rightarrow> Status \<times> 'w Mach" where
  "createHeapFile env name m0 =
     (case db_openFile env name (uninit_file env) m0 of (status, file, m) \<Rightarrow>
      if status \<noteq> OK then
        (case db_createFile env name m of (status, m) \<Rightarrow>
         if status \<noteq> OK then (status, m) else
         (case db_openFile env name file m of (status, file, m) \<Rightarrow>
          if status \<noteq> OK then (status, m) else
          (case bufMgr_allocPage env file (uninit_int env) (uninit_ptr env) m of
             (status, hdrPageNo, newPage, m) \<Rightarrow>
           if status \<noteq> OK then (status, m) else
           (let hdrPage = newPage in
            case bufMgr_allocPage env file (uninit_int env) newPage m of
              (_, newPageNo, newPage, m) \<Rightarrow>
            (let m = Page_init env newPage newPageNo m;
                 m = hdr_upd env hdrPage
                       \<lparr>fileName = strcpy_fileName (MAXNAMESIZE env) name,
                        firstPage = newPageNo, lastPage = newPageNo,
                        pageCnt = 1, recCnt = 0\<rparr> m
             in case bufMgr_unPinPage env file hdrPageNo True m of (status, m) \<Rightarrow>
                if status \<noteq> OK then (status, m) else
                (case bufMgr_unPinPage env file newPageNo True m of (status, m) \<Rightarrow>
                 if status \<noteq> OK then (status, m) else
                 db_closeFile env file m))))))
      else (FILEEXISTS, m))"

definition destroyHeapFile :: "'w Env \<Rightarrow> string \<Rightarrow> 'w Mach \<Rightarrow> Status \<times> 'w Mach" where
  "destroyHeapFile env name m = db_destroyFile env name m"

subsection \<open>class HeapFile\<close>

text \<open>
  The constructor gets the object as it is before construction (its members hold
  whatever the memory held) and returns \<^verbatim>\<open>returnStatus\<close> with the object.
\<close>

definition HeapFile_ctor ::
  "'w Env \<Rightarrow> string \<Rightarrow> Status \<Rightarrow> 'a HeapFile_scheme \<Rightarrow> 'w Mach \<Rightarrow>
   Status \<times> 'a HeapFile_scheme \<times> 'w Mach" where
  "HeapFile_ctor env name returnStatus h0 m0 =
     (case db_openFile env name (filePtr h0) m0 of (status, file, m) \<Rightarrow>
      let h = h0\<lparr>filePtr := file\<rparr> in
      if status = OK then
        (case File_getFirstPage env (filePtr h) (headerPageNo h) m of (returnStatus, pn, m) \<Rightarrow>
         let h = h\<lparr>headerPageNo := pn\<rparr> in
         if returnStatus \<noteq> OK then (returnStatus, h, m) else
         (case bufMgr_readPage env (filePtr h) (headerPageNo h) (uninit_ptr env) m of
            (returnStatus, pagePtr, m) \<Rightarrow>
          if returnStatus \<noteq> OK then (returnStatus, h, m) else
          (let h = h\<lparr>headerPage := pagePtr, hdrDirtyFlag := False\<rparr>;
               h = h\<lparr>curPageNo := firstPage (hdr env (headerPage h) m)\<rparr>
           in case bufMgr_readPage env (filePtr h) (curPageNo h) (curPage h) m of
                (returnStatus, p, m) \<Rightarrow>
              let h = h\<lparr>curPage := p\<rparr> in
              if returnStatus \<noteq> OK then (returnStatus, h, m) else
              (returnStatus, h\<lparr>curDirtyFlag := False, curRec := NULLRID\<rparr>, m))))
      else (status, h, m))"

definition HeapFile_dtor ::
  "'w Env \<Rightarrow> 'a HeapFile_scheme \<Rightarrow> 'w Mach \<Rightarrow> 'a HeapFile_scheme \<times> 'w Mach" where
  "HeapFile_dtor env h0 m0 =
     (case (if curPage h0 \<noteq> NULL then
              (case bufMgr_unPinPage env (filePtr h0) (curPageNo h0) (curDirtyFlag h0) m0 of
                 (status, m) \<Rightarrow>
                   (h0\<lparr>curPage := NULL, curPageNo := 0, curDirtyFlag := False\<rparr>, m))
            else (h0, m0)) of (h, m) \<Rightarrow>
      case bufMgr_unPinPage env (filePtr h) (headerPageNo h) (hdrDirtyFlag h) m of
        (status, m) \<Rightarrow>
      case db_closeFile env (filePtr h) m of (status, m) \<Rightarrow> (h, m))"

definition getRecCnt :: "'w Env \<Rightarrow> 'a HeapFile_scheme \<Rightarrow> 'w Mach \<Rightarrow> int" where
  "getRecCnt env h m = recCnt (hdr env (headerPage h) m)"

definition getRecord ::
  "'w Env \<Rightarrow> RID \<Rightarrow> Record \<Rightarrow> 'a HeapFile_scheme \<Rightarrow> 'w Mach \<Rightarrow>
   Status \<times> Record \<times> 'a HeapFile_scheme \<times> 'w Mach" where
  "getRecord env rid rec h0 m0 =
     (case (if pageNo rid \<noteq> curPageNo h0 then
              (case bufMgr_unPinPage env (filePtr h0) (curPageNo h0) (curDirtyFlag h0) m0 of
                 (status, m) \<Rightarrow>
               if status \<noteq> OK then Inl (status, h0, m) else
               (let h = h0\<lparr>curDirtyFlag := False\<rparr> in
                case bufMgr_readPage env (filePtr h) (pageNo rid) (curPage h) m of
                  (status, p, m) \<Rightarrow>
                let h = h\<lparr>curPage := p\<rparr> in
                if status \<noteq> OK then Inl (status, h, m) else
                Inr (h\<lparr>curPageNo := pageNo rid\<rparr>, m)))
            else Inr (h0, m0)) of
        Inl (status, h, m) \<Rightarrow> (status, rec, h, m)
      | Inr (h, m) \<Rightarrow>
          (case Page_getRecord env (curPage h) rid rec m of (status, rec, m) \<Rightarrow>
           if status \<noteq> OK then (status, rec, h, m) else
           (status, rec, h\<lparr>curRec := rid\<rparr>, m)))"

subsection \<open>class HeapFileScan\<close>

definition HeapFileScan_ctor ::
  "'w Env \<Rightarrow> string \<Rightarrow> Status \<Rightarrow> 'a HeapFileScan_scheme \<Rightarrow> 'w Mach \<Rightarrow>
   Status \<times> 'a HeapFileScan_scheme \<times> 'w Mach" where
  "HeapFileScan_ctor env name status h0 m0 =
     (case HeapFile_ctor env name status h0 m0 of
        (status, h, m) \<Rightarrow> (status, h\<lparr>filter_scan := None\<rparr>, m))"

definition endScan ::
  "'w Env \<Rightarrow> 'a HeapFileScan_scheme \<Rightarrow> 'w Mach \<Rightarrow> Status \<times> 'a HeapFileScan_scheme \<times> 'w Mach" where
  "endScan env h m0 =
     (if curPage h \<noteq> NULL then
        (case bufMgr_unPinPage env (filePtr h) (curPageNo h) (curDirtyFlag h) m0 of
           (status, m) \<Rightarrow>
             (status, h\<lparr>curPage := NULL, curPageNo := 0, curDirtyFlag := False\<rparr>, m))
      else (OK, h, m0))"

text \<open>\<^verbatim>\<open>~HeapFileScan\<close> runs \<^verbatim>\<open>endScan()\<close> and then the destructor of the base class.\<close>

definition HeapFileScan_dtor ::
  "'w Env \<Rightarrow> 'a HeapFileScan_scheme \<Rightarrow> 'w Mach \<Rightarrow> 'a HeapFileScan_scheme \<times> 'w Mach" where
  "HeapFileScan_dtor env h0 m0 =
     (case endScan env h0 m0 of (_, h, m) \<Rightarrow> HeapFile_dtor env h m)"

definition markScan :: "'a HeapFileScan_scheme \<Rightarrow> Status \<times> 'a HeapFileScan_scheme" where
  "markScan h = (OK, h\<lparr>markedPageNo := curPageNo h, markedRec := curRec h\<rparr>)"

definition resetScan ::
  "'w Env \<Rightarrow> 'a HeapFileScan_scheme \<Rightarrow> 'w Mach \<Rightarrow> Status \<times> 'a HeapFileScan_scheme \<times> 'w Mach" where
  "resetScan env h0 m0 =
     (if markedPageNo h0 \<noteq> curPageNo h0 then
        (case (if curPage h0 \<noteq> NULL then
                 bufMgr_unPinPage env (filePtr h0) (curPageNo h0) (curDirtyFlag h0) m0
               else (OK, m0)) of (status, m) \<Rightarrow>
         if status \<noteq> OK then (status, h0, m) else
         (let h = h0\<lparr>curPageNo := markedPageNo h0, curRec := markedRec h0\<rparr> in
          case bufMgr_readPage env (filePtr h) (curPageNo h) (curPage h) m of
            (status, p, m) \<Rightarrow>
          let h = h\<lparr>curPage := p\<rparr> in
          if status \<noteq> OK then (status, h, m) else
          (OK, h\<lparr>curDirtyFlag := False\<rparr>, m)))
      else (OK, h0\<lparr>curRec := markedRec h0\<rparr>, m0))"

text \<open>
  One pass through the body of the \<^verbatim>\<open>do ... while\<close> of \<^verbatim>\<open>scanNext\<close>: \<open>Inl\<close> is a
  \<^verbatim>\<open>return\<close> inside the body, \<open>Inr\<close> reaches the loop test with the locals
  \<^verbatim>\<open>status\<close>, \<^verbatim>\<open>tmpRid\<close>, \<^verbatim>\<open>rec\<close>.  \<^verbatim>\<open>getRecord(rec)\<close> is
  \<^verbatim>\<open>curPage->getRecord(curRec, rec)\<close>, and it runs before \<^verbatim>\<open>curRec = tmpRid\<close>.
\<close>

definition scanNext_body ::
  "'w Env \<Rightarrow> RID \<Rightarrow> Record \<Rightarrow> 'a HeapFileScan_scheme \<Rightarrow> 'w Mach \<Rightarrow>
   (Status \<times> 'a HeapFileScan_scheme \<times> 'w Mach)
   + (Status \<times> RID \<times> Record \<times> 'a HeapFileScan_scheme \<times> 'w Mach)" where
  "scanNext_body env tmpRid0 rec0 h0 m0 =
     (let fresh = (pageNo (curRec h0) = -1 \<and> slotNo (curRec h0) = -1) in
      case (if fresh then Page_firstRecord env (curPage h0) tmpRid0 m0
            else Page_nextRecord env (curPage h0) (curRec h0) tmpRid0 m0) of
        (status, tmpRid, m) \<Rightarrow>
      if fresh \<and> status \<noteq> OK then Inl (FILEEOF, h0, m) else
      (case (if status = ENDOFPAGE then
               (case bufMgr_unPinPage env (filePtr h0) (curPageNo h0) (curDirtyFlag h0) m of
                  (status, m) \<Rightarrow>
                if status \<noteq> OK then Inl (status, h0, m) else
                (case Page_getNextPage env (curPage h0) (curPageNo h0) m of (_, pn, m) \<Rightarrow>
                 let h = h0\<lparr>curPageNo := pn\<rparr> in
                 case bufMgr_readPage env (filePtr h) (curPageNo h) (curPage h) m of
                   (status, p, m) \<Rightarrow>
                 let h = h\<lparr>curPage := p\<rparr> in
                 if status \<noteq> OK then Inl (status, h, m) else
                 (case Page_firstRecord env (curPage h) tmpRid m of (status, tmpRid, m) \<Rightarrow>
                  if status \<noteq> OK then Inl (FILEEOF, h, m) else
                  Inr (status, tmpRid, h, m))))
             else Inr (status, tmpRid, h0, m)) of
         Inl r \<Rightarrow> Inl r
       | Inr (status, tmpRid, h, m) \<Rightarrow>
           (case Page_getRecord env (curPage h) (curRec h) rec0 m of (status, rec, m) \<Rightarrow>
            if status \<noteq> OK then Inl (status, h, m) else
            Inr (status, tmpRid, rec, h\<lparr>curRec := tmpRid\<rparr>, m))))"

text \<open>
  The loop.  It need not end (pages may link in a circle), so it runs on fuel: the first
  argument bounds the number of passes, and \<open>None\<close> says they did not suffice.
\<close>

fun scanNext_loop ::
  "nat \<Rightarrow> 'w Env \<Rightarrow> RID \<Rightarrow> Record \<Rightarrow> RID \<Rightarrow> 'a HeapFileScan_scheme \<Rightarrow> 'w Mach \<Rightarrow>
   (Status \<times> RID \<times> 'a HeapFileScan_scheme \<times> 'w Mach) option" where
  "scanNext_loop 0 env tmpRid rec outRid h m = None"
| "scanNext_loop (Suc n) env tmpRid rec outRid h m =
     (case scanNext_body env tmpRid rec h m of
        Inl (status, h, m) \<Rightarrow> Some (status, outRid, h, m)
      | Inr (status, tmpRid, rec, h, m) \<Rightarrow>
          if \<not> matchRec (e_fsub env) h rec then scanNext_loop n env tmpRid rec outRid h m
          else Some (status, curRec h, h, m))"

definition scanNext ::
  "nat \<Rightarrow> 'w Env \<Rightarrow> RID \<Rightarrow> 'a HeapFileScan_scheme \<Rightarrow> 'w Mach \<Rightarrow>
   (Status \<times> RID \<times> 'a HeapFileScan_scheme \<times> 'w Mach) option" where
  "scanNext n env outRid h m = scanNext_loop n env (uninit_rid env) (uninit_rec env) outRid h m"


definition getRecord_scan ::
  "'w Env \<Rightarrow> Record \<Rightarrow> 'a HeapFileScan_scheme \<Rightarrow> 'w Mach \<Rightarrow> Status \<times> Record \<times> 'w Mach" where
  "getRecord_scan env rec h m = Page_getRecord env (curPage h) (curRec h) rec m"

definition deleteRecord ::
  "'w Env \<Rightarrow> 'a HeapFileScan_scheme \<Rightarrow> 'w Mach \<Rightarrow> Status \<times> 'a HeapFileScan_scheme \<times> 'w Mach" where
  "deleteRecord env h0 m0 =
     (case Page_deleteRecord env (curPage h0) (curRec h0) m0 of (status, m) \<Rightarrow>
      let h = h0\<lparr>curDirtyFlag := True\<rparr>;
          v = hdr env (headerPage h) m;
          m = hdr_upd env (headerPage h) (v\<lparr>recCnt := recCnt v - 1\<rparr>) m
      in (status, h\<lparr>hdrDirtyFlag := True\<rparr>, m))"

definition markDirty ::
  "'a HeapFileScan_scheme \<Rightarrow> 'w Mach \<Rightarrow> Status \<times> 'a HeapFileScan_scheme \<times> 'w Mach" where
  "markDirty h m = (OK, h\<lparr>curDirtyFlag := True\<rparr>, step (world m) (MarkDirty (curPage h)) m)"

subsection \<open>class InsertFileScan\<close>

definition InsertFileScan_ctor ::
  "'w Env \<Rightarrow> string \<Rightarrow> Status \<Rightarrow> 'a HeapFile_scheme \<Rightarrow> 'w Mach \<Rightarrow>
   Status \<times> 'a HeapFile_scheme \<times> 'w Mach" where
  "InsertFileScan_ctor env name status h m = HeapFile_ctor env name status h m"

text \<open>\<^verbatim>\<open>~InsertFileScan\<close>: its own body, then the destructor of the base class.\<close>

definition InsertFileScan_dtor ::
  "'w Env \<Rightarrow> 'a HeapFile_scheme \<Rightarrow> 'w Mach \<Rightarrow> 'a HeapFile_scheme \<times> 'w Mach" where
  "InsertFileScan_dtor env h0 m0 =
     (case (if curPage h0 \<noteq> NULL then
              (case bufMgr_unPinPage env (filePtr h0) (curPageNo h0) True m0 of
                 (status, m) \<Rightarrow> (h0\<lparr>curPage := NULL, curPageNo := 0\<rparr>, m))
            else (h0, m0)) of (h, m) \<Rightarrow> HeapFile_dtor env h m)"

text \<open>
  \<^verbatim>\<open>(unsigned int) rec.length > PAGESIZE-DPFIXED\<close> compares as \<^verbatim>\<open>unsigned int\<close>: both
  sides modulo \<open>2 ^ 32\<close>.
\<close>

definition unsigned_int :: "int \<Rightarrow> int" where
  "unsigned_int i = i mod 2 ^ 32"

definition insertRecord ::
  "'w Env \<Rightarrow> Record \<Rightarrow> RID \<Rightarrow> 'a HeapFile_scheme \<Rightarrow> 'w Mach \<Rightarrow>
   Status \<times> RID \<times> 'a HeapFile_scheme \<times> 'w Mach" where
  "insertRecord env rec outRid0 h0 m0 =
     (if unsigned_int (length_rec rec) > unsigned_int (PAGESIZE env - DPFIXED env)
      then (INVALIDRECLEN, outRid0, h0, m0)
      else
       case (if curPageNo h0 \<noteq> lastPage (hdr env (headerPage h0) m0) then
               (case bufMgr_unPinPage env (filePtr h0) (curPageNo h0) (curDirtyFlag h0) m0 of
                  (status, m) \<Rightarrow>
                if status \<noteq> OK then Inl (status, h0, m) else
                (case bufMgr_readPage env (filePtr h0) (lastPage (hdr env (headerPage h0) m))
                        (uninit_ptr env) m of (status, newPage, m) \<Rightarrow>
                 if status \<noteq> OK then Inl (status, h0, m) else
                 Inr (newPage,
                      h0\<lparr>curPage := newPage,
                         curPageNo := lastPage (hdr env (headerPage h0) m),
                         curDirtyFlag := False\<rparr>, m)))
             else Inr (uninit_ptr env, h0, m0)) of
         Inl (status, h, m) \<Rightarrow> (status, outRid0, h, m)
       | Inr (newPage, h, m) \<Rightarrow>
           (case Page_insertRecord env (curPage h) rec outRid0 m of (status, outRid, m) \<Rightarrow>
            (case (if status = NOSPACE then
                    (case bufMgr_allocPage env (filePtr h) (uninit_int env) newPage m of
                       (status, newPageNo, newPage, m) \<Rightarrow>
                     if status \<noteq> OK then Inl (status, outRid, h, m) else
                     (let m = Page_init env newPage newPageNo m;
                          m = Page_setNextPage env (curPage h) newPageNo m
                      in case bufMgr_unPinPage env (filePtr h) (curPageNo h) (curDirtyFlag h) m of
                           (status, m) \<Rightarrow>
                         if status \<noteq> OK then Inl (status, outRid, h, m) else
                         (let h = h\<lparr>curPage := newPage, curPageNo := newPageNo,
                                    curDirtyFlag := False\<rparr>
                          in case Page_insertRecord env (curPage h) rec outRid m of
                               (status, outRid, m) \<Rightarrow>
                             if status \<noteq> OK then Inl (status, outRid, h, m) else
                             (let v = hdr env (headerPage h) m;
                                  m = hdr_upd env (headerPage h)
                                        (v\<lparr>lastPage := curPageNo h, pageCnt := pageCnt v + 1\<rparr>) m
                              in Inr (outRid, h\<lparr>hdrDirtyFlag := True\<rparr>, m)))))
                  else Inr (outRid, h, m)) of
              Inl r \<Rightarrow> r
            | Inr (outRid, h, m) \<Rightarrow>
                (let h = h\<lparr>curDirtyFlag := True\<rparr>;
                     v = hdr env (headerPage h) m;
                     m = hdr_upd env (headerPage h) (v\<lparr>recCnt := recCnt v + 1\<rparr>) m
                 in (OK, outRid, h\<lparr>curRec := outRid\<rparr>, m)))))"

section \<open>An instance of the environment\<close>

text \<open>
  Modelled from the spec: the database layer, the buffer manager and the page layer
  (\<^verbatim>\<open>db\<close>, \<^verbatim>\<open>bufMgr\<close>, \<^verbatim>\<open>Page\<close>, \<^verbatim>\<open>File\<close>; their sources are not part of
  heapfile.cpp).  Pages are numbered across the whole store.  The buffer pool has
  \<open>numBufs\<close> frames; \<open>pages\<close> holds the frames in use, under the number of the page
  each one holds, and a \<^verbatim>\<open>Page*\<close> is \<open>Frame n\<close> for the frame of page \<open>n\<close>; \<open>loaded\<close>
  lists these pages in the order in which they came into the pool; \<open>disk\<close> holds the
  pages as they are on disk.  A frame carries its pin count and its dirty bit, which
  says that the frame differs from the page on disk; a page has slots, a
  \<^verbatim>\<open>nextPage\<close> link and, for the view through a \<^verbatim>\<open>FileHdrPage*\<close>, header fields, and
  holds records of \<open>PAGESIZE - DPFIXED\<close> bytes in all.  Status codes of \<^verbatim>\<open>error.h\<close>
  that heapfile.cpp does not name are \<open>OtherStatus\<close> codes.
\<close>

abbreviation UNIXERR :: Status where "UNIXERR \<equiv> OtherStatus 1"
abbreviation FILENOTOPEN :: Status where "FILENOTOPEN \<equiv> OtherStatus 2"
abbreviation BADPAGENO :: Status where "BADPAGENO \<equiv> OtherStatus 3"
abbreviation HASHNOTFOUND :: Status where "HASHNOTFOUND \<equiv> OtherStatus 4"
abbreviation PAGENOTPINNED :: Status where "PAGENOTPINNED \<equiv> OtherStatus 5"
abbreviation BUFFEREXCEEDED :: Status where "BUFFEREXCEEDED \<equiv> OtherStatus 6"
abbreviation INVALIDSLOTNO :: Status where "INVALIDSLOTNO \<equiv> OtherStatus 7"

record PageSt =
  owner :: FilePtr
  pinCnt :: nat
  dirty :: bool
  selfNo :: int
  slots :: "Record option list"
  nextPage :: int
  hdrv :: FileHdrPage

record World =
  fileTab :: "(string \<times> FilePtr) list"
  nextFile :: nat
  openCnt :: "FilePtr \<Rightarrow> nat"
  firstPg :: "FilePtr \<Rightarrow> int option"
  pages :: "nat \<Rightarrow> PageSt option"
  loaded :: "nat list"
  disk :: "nat \<Rightarrow> PageSt option"
  nextFree :: nat
  numBufs :: nat

definition zero_hdr :: FileHdrPage where
  "zero_hdr = \<lparr>fileName = [], firstPage = 0, lastPage = 0, pageCnt = 0, recCnt = 0\<rparr>"

definition deref :: "PagePtr \<Rightarrow> World \<Rightarrow> (nat \<times> PageSt) option" where
  "deref p w =
     (case p of NULL \<Rightarrow> None
      | Frame n \<Rightarrow> (case pages w n of None \<Rightarrow> None | Some pg \<Rightarrow> Some (n, pg)))"

definition put :: "nat \<Rightarrow> PageSt \<Rightarrow> World \<Rightarrow> World" where
  "put n pg w = w\<lparr>pages := (pages w)(n \<mapsto> pg)\<rparr>"

text \<open>
  Modelled from the spec: the replacement of frames in the buffer pool, which is not
  part of heapfile.cpp.  A pinned page cannot leave the pool.  When a frame is needed
  and all \<open>numBufs\<close> are in use, the page that has been in the pool longest among
  those not pinned gives up its frame: it is written to disk if its dirty bit is set
  and dropped as it is if not.  \<open>make_room\<close> is \<open>None\<close> when every frame is pinned.
\<close>

definition unpinned :: "World \<Rightarrow> nat \<Rightarrow> bool" where
  "unpinned w n = (case pages w n of None \<Rightarrow> False | Some pg \<Rightarrow> pinCnt pg = 0)"

definition replace_frame :: "nat \<Rightarrow> World \<Rightarrow> World" where
  "replace_frame n w =
     (case pages w n of
        None \<Rightarrow> w
      | Some pg \<Rightarrow>
          w\<lparr>disk := (if dirty pg then (disk w)(n \<mapsto> pg\<lparr>dirty := False\<rparr>) else disk w),
            pages := (pages w)(n := None),
            loaded := remove1 n (loaded w)\<rparr>)"

definition make_room :: "World \<Rightarrow> World option" where
  "make_room w =
     (if length (loaded w) < numBufs w then Some w
      else case find (unpinned w) (loaded w) of
             None \<Rightarrow> None
           | Some n \<Rightarrow> Some (replace_frame n w))"

definition lookup :: "FilePtr \<Rightarrow> int \<Rightarrow> World \<Rightarrow> PageSt option" where
  "lookup f pn w =
     (if pn < 0 then None
      else case pages w (nat pn) of None \<Rightarrow> None
           | Some pg \<Rightarrow> if owner pg = f then Some pg else None)"

definition mr_createFile :: "string \<Rightarrow> World \<Rightarrow> Status \<times> World" where
  "mr_createFile name w =
     (case map_of (fileTab w) name of
        Some _ \<Rightarrow> (FILEEXISTS, w)
      | None \<Rightarrow> (OK, w\<lparr>fileTab := (name, nextFile w) # fileTab w,
                         nextFile := Suc (nextFile w)\<rparr>))"

definition mr_openFile :: "string \<Rightarrow> FilePtr \<Rightarrow> World \<Rightarrow> Status \<times> FilePtr \<times> World" where
  "mr_openFile name file w =
     (case map_of (fileTab w) name of
        None \<Rightarrow> (UNIXERR, file, w)
      | Some f \<Rightarrow> (OK, f, w\<lparr>openCnt := (openCnt w)(f := Suc (openCnt w f))\<rparr>))"

definition mr_closeFile :: "FilePtr \<Rightarrow> World \<Rightarrow> Status \<times> World" where
  "mr_closeFile f w =
     (if openCnt w f = 0 then (FILENOTOPEN, w)
      else (OK, w\<lparr>openCnt := (openCnt w)(f := openCnt w f - 1)\<rparr>))"

definition mr_destroyFile :: "string \<Rightarrow> World \<Rightarrow> Status \<times> World" where
  "mr_destroyFile name w =
     (case map_of (fileTab w) name of
        None \<Rightarrow> (UNIXERR, w)
      | Some f \<Rightarrow> (OK, w\<lparr>fileTab := filter (\<lambda>e. fst e \<noteq> name) (fileTab w)\<rparr>))"

definition mr_getFirstPage :: "FilePtr \<Rightarrow> int \<Rightarrow> World \<Rightarrow> Status \<times> int" where
  "mr_getFirstPage f pn w =
     (case firstPg w f of None \<Rightarrow> (BADPAGENO, pn) | Some n \<Rightarrow> (OK, n))"

text \<open>
  Modelled from the spec: \<^verbatim>\<open>allocPage\<close>, \<^verbatim>\<open>readPage\<close> and \<^verbatim>\<open>unPinPage\<close> of the
  buffer manager.  \<^verbatim>\<open>allocPage\<close> adds a page to the file on disk and returns it
  pinned in a frame.  \<^verbatim>\<open>readPage\<close> pins the page once more when it is in the pool,
  and otherwise brings it in from disk, pinned, with a clear dirty bit.
  \<^verbatim>\<open>unPinPage\<close> takes one pin off and sets the dirty bit when \<open>dirty\<close> is true; it
  never clears it.
\<close>

definition mr_allocPage ::
  "FilePtr \<Rightarrow> int \<Rightarrow> PagePtr \<Rightarrow> World \<Rightarrow> Status \<times> int \<times> PagePtr \<times> World" where
  "mr_allocPage f pn p w0 =
     (case make_room w0 of
        None \<Rightarrow> (BUFFEREXCEEDED, pn, p, w0)
      | Some w \<Rightarrow>
        let n = nextFree w;
            pg = \<lparr>owner = f, pinCnt = 0, dirty = False, selfNo = 0, slots = [],
                  nextPage = 0, hdrv = zero_hdr\<rparr>
        in (OK, int n, Frame n,
            w\<lparr>pages := (pages w)(n \<mapsto> pg\<lparr>pinCnt := 1\<rparr>),
              loaded := loaded w @ [n],
              disk := (disk w)(n \<mapsto> pg),
              nextFree := Suc n,
              firstPg := (case firstPg w f of
                            None \<Rightarrow> (firstPg w)(f \<mapsto> int n)
                          | Some _ \<Rightarrow> firstPg w)\<rparr>))"

definition on_disk :: "FilePtr \<Rightarrow> int \<Rightarrow> World \<Rightarrow> PageSt option" where
  "on_disk f pn w =
     (if pn < 0 then None
      else case disk w (nat pn) of None \<Rightarrow> None
           | Some pg \<Rightarrow> if owner pg = f then Some pg else None)"

definition mr_readPage ::
  "FilePtr \<Rightarrow> int \<Rightarrow> PagePtr \<Rightarrow> World \<Rightarrow> Status \<times> PagePtr \<times> World" where
  "mr_readPage f pn p w0 =
     (case lookup f pn w0 of
        Some pg \<Rightarrow> (OK, Frame (nat pn), put (nat pn) (pg\<lparr>pinCnt := Suc (pinCnt pg)\<rparr>) w0)
      | None \<Rightarrow>
          (case on_disk f pn w0 of
             None \<Rightarrow> (BADPAGENO, p, w0)
           | Some pg \<Rightarrow>
               (case make_room w0 of
                  None \<Rightarrow> (BUFFEREXCEEDED, p, w0)
                | Some w \<Rightarrow>
                    (OK, Frame (nat pn),
                     w\<lparr>pages := (pages w)(nat pn \<mapsto> pg\<lparr>pinCnt := 1, dirty := False\<rparr>),
                       loaded := loaded w @ [nat pn]\<rparr>))))"

definition mr_unPinPage :: "FilePtr \<Rightarrow> int \<Rightarrow> bool \<Rightarrow> World \<Rightarrow> Status \<times> World" where
  "mr_unPinPage f pn d w =
     (case lookup f pn w of
        None \<Rightarrow> (HASHNOTFOUND, w)
      | Some pg \<Rightarrow>
          if pinCnt pg = 0 then (PAGENOTPINNED, w)
          else (OK, put (nat pn) (pg\<lparr>pinCnt := pinCnt pg - 1, dirty := (dirty pg \<or> d)\<rparr>) w))"

definition mr_init :: "PagePtr \<Rightarrow> int \<Rightarrow> World \<Rightarrow> World" where
  "mr_init p pn w =
     (case deref p w of None \<Rightarrow> w
      | Some (n, pg) \<Rightarrow> put n (pg\<lparr>selfNo := pn, slots := [], nextPage := -1\<rparr>) w)"

definition mr_getNextPage :: "PagePtr \<Rightarrow> int \<Rightarrow> World \<Rightarrow> Status \<times> int" where
  "mr_getNextPage p pn w =
     (case deref p w of None \<Rightarrow> (BADPAGEPTR, pn) | Some (n, pg) \<Rightarrow> (OK, nextPage pg))"

definition mr_setNextPage :: "PagePtr \<Rightarrow> int \<Rightarrow> World \<Rightarrow> World" where
  "mr_setNextPage p pn w =
     (case deref p w of None \<Rightarrow> w | Some (n, pg) \<Rightarrow> put n (pg\<lparr>nextPage := pn\<rparr>) w)"

fun first_live :: "Record option list \<Rightarrow> nat \<Rightarrow> nat option" where
  "first_live [] i = None"
| "first_live (s # ss) i = (if s \<noteq> None then Some i else first_live ss (Suc i))"

definition mr_firstRecord :: "PagePtr \<Rightarrow> RID \<Rightarrow> World \<Rightarrow> Status \<times> RID" where
  "mr_firstRecord p rid w =
     (case deref p w of None \<Rightarrow> (BADPAGEPTR, rid)
      | Some (n, pg) \<Rightarrow>
          (case first_live (slots pg) 0 of
             None \<Rightarrow> (NORECORDS, rid)
           | Some i \<Rightarrow> (OK, \<lparr>pageNo = selfNo pg, slotNo = int i\<rparr>)))"

definition mr_nextRecord :: "PagePtr \<Rightarrow> RID \<Rightarrow> RID \<Rightarrow> World \<Rightarrow> Status \<times> RID" where
  "mr_nextRecord p cur rid w =
     (case deref p w of None \<Rightarrow> (BADPAGEPTR, rid)
      | Some (n, pg) \<Rightarrow>
          (let k = nat (slotNo cur + 1) in
           case first_live (drop k (slots pg)) k of
             None \<Rightarrow> (ENDOFPAGE, rid)
           | Some i \<Rightarrow> (OK, \<lparr>pageNo = selfNo pg, slotNo = int i\<rparr>)))"

definition mr_getRecord :: "PagePtr \<Rightarrow> RID \<Rightarrow> Record \<Rightarrow> World \<Rightarrow> Status \<times> Record" where
  "mr_getRecord p rid rec w =
     (case deref p w of None \<Rightarrow> (BADPAGEPTR, rec)
      | Some (n, pg) \<Rightarrow>
          if 0 \<le> slotNo rid \<and> nat (slotNo rid) < length (slots pg) then
            (case slots pg ! nat (slotNo rid) of
               None \<Rightarrow> (INVALIDSLOTNO, rec)
             | Some r \<Rightarrow> (OK, r))
          else (INVALIDSLOTNO, rec))"

definition used_bytes :: "Record option list \<Rightarrow> int" where
  "used_bytes ss = sum_list (map (\<lambda>s. case s of None \<Rightarrow> 0 | Some r \<Rightarrow> length_rec r) ss)"

definition mr_insertRecord ::
  "int \<Rightarrow> PagePtr \<Rightarrow> Record \<Rightarrow> RID \<Rightarrow> World \<Rightarrow> Status \<times> RID \<times> World" where
  "mr_insertRecord cap p rec rid w =
     (case deref p w of None \<Rightarrow> (BADPAGEPTR, rid, w)
      | Some (n, pg) \<Rightarrow>
          if cap - used_bytes (slots pg) < length_rec rec then (NOSPACE, rid, w)
          else (OK, \<lparr>pageNo = selfNo pg, slotNo = int (length (slots pg))\<rparr>,
                put n (pg\<lparr>slots := slots pg @ [Some rec]\<rparr>) w))"

definition mr_deleteRecord :: "PagePtr \<Rightarrow> RID \<Rightarrow> World \<Rightarrow> Status \<times> World" where
  "mr_deleteRecord p rid w =
     (case deref p w of None \<Rightarrow> (BADPAGEPTR, w)
      | Some (n, pg) \<Rightarrow>
          if 0 \<le> slotNo rid \<and> nat (slotNo rid) < length (slots pg)
             \<and> slots pg ! nat (slotNo rid) \<noteq> None
          then (OK, put n (pg\<lparr>slots := (slots pg)[nat (slotNo rid) := None]\<rparr>) w)
          else (INVALIDSLOTNO, w))"

definition mr_hdr :: "PagePtr \<Rightarrow> World \<Rightarrow> FileHdrPage" where
  "mr_hdr p w = (case deref p w of None \<Rightarrow> zero_hdr | Some (n, pg) \<Rightarrow> hdrv pg)"

definition mr_hdr_upd :: "PagePtr \<Rightarrow> FileHdrPage \<Rightarrow> World \<Rightarrow> World" where
  "mr_hdr_upd p v w =
     (case deref p w of None \<Rightarrow> w | Some (n, pg) \<Rightarrow> put n (pg\<lparr>hdrv := v\<rparr>) w)"

text \<open>
  The instance, for a page size, a fixed page overhead, a size of the name array and
  a \<^verbatim>\<open>float\<close> subtraction.  Uninitialised locals read as zero.
\<close>

definition minirel ::
  "int \<Rightarrow> int \<Rightarrow> nat \<Rightarrow> (byte list \<Rightarrow> byte list \<Rightarrow> fdiff) \<Rightarrow> World Env" where
  "minirel psz dpf mns fs =
     \<lparr>PAGESIZE = psz, DPFIXED = dpf, MAXNAMESIZE = mns,
      e_createFile = mr_createFile, e_openFile = mr_openFile, e_closeFile = mr_closeFile,
      e_destroyFile = mr_destroyFile, e_getFirstPage = mr_getFirstPage,
      e_allocPage = mr_allocPage, e_readPage = mr_readPage, e_unPinPage = mr_unPinPage,
      e_init = mr_init, e_getNextPage = mr_getNextPage, e_setNextPage = mr_setNextPage,
      e_firstRecord = mr_firstRecord, e_nextRecord = mr_nextRecord,
      e_getRecord = mr_getRecord, e_insertRecord = mr_insertRecord (psz - dpf),
      e_deleteRecord = mr_deleteRecord, e_hdr = mr_hdr, e_hdr_upd = mr_hdr_upd,
      e_fsub = fs, uninit_int = 0, uninit_file = 0, uninit_ptr = NULL,
      uninit_rid = \<lparr>pageNo = 0, slotNo = 0\<rparr>,
      uninit_rec = \<lparr>data_rec = [], length_rec = 0\<rparr>\<rparr>"

text \<open>An empty store with a pool of \<open>nb\<close> frames; page numbers start at 1.\<close>

definition empty_world :: "nat \<Rightarrow> World" where
  "empty_world nb =
     \<lparr>fileTab = [], nextFile = 1, openCnt = (\<lambda>_. 0), firstPg = (\<lambda>_. None),
      pages = (\<lambda>_. None), loaded = [], disk = (\<lambda>_. None), nextFree = 1, numBufs = nb\<rparr>"

definition start :: "'w \<Rightarrow> 'w Mach" where
  "start w = \<lparr>world = w, trace = []\<rparr>"

text \<open>A scan object before construction: every member zero.\<close>

definition raw_scan :: HeapFileScan where
  "raw_scan =
     \<lparr>filePtr = 0, headerPage = NULL, headerPageNo = 0, hdrDirtyFlag = False,
      curPage = NULL, curPageNo = 0, curDirtyFlag = False,
      curRec = \<lparr>pageNo = 0, slotNo = 0\<rparr>,
      offset_scan = 0, length_scan = 0, type_scan = STRING, filter_scan = None,
      op_scan = LT, markedPageNo = 0, markedRec = \<lparr>pageNo = 0, slotNo = 0\<rparr>\<rparr>"

definition raw_file :: HeapFile where
  "raw_file =
     \<lparr>filePtr = 0, headerPage = NULL, headerPageNo = 0, hdrDirtyFlag = False,
      curPage = NULL, curPageNo = 0, curDirtyFlag = False,
      curRec = \<lparr>pageNo = 0, slotNo = 0\<rparr>\<rparr>"

section \<open>Observing runs\<close>

text \<open>The calls made between two machine states.\<close>

definition calls_since :: "'w Mach \<Rightarrow> 'w Mach \<Rightarrow> Call list" where
  "calls_since m m' = drop (length (trace m)) (trace m')"


text \<open>
  The unpin rule in the words of the specification: a page is unpinned with
  \<open>dirty = true\<close> if and only if the heap layer changed it since it pinned it.
  \<open>mutates c p\<close> says that the logged call \<open>c\<close> changes the page behind \<open>p\<close>;
  \<open>unpin_rule\<close> walks a log with the table of pages pinned so far, each with its
  pointer and whether it was changed since.
\<close>

fun mutates :: "Call \<Rightarrow> PagePtr \<Rightarrow> bool" where
  "mutates (PageInit q _) p = (q = p)"
| "mutates (SetNextPage q _) p = (q = p)"
| "mutates (InsertRecord q _ st) p = (q = p \<and> st = OK)"
| "mutates (DeleteRecord q _ st) p = (q = p \<and> st = OK)"
| "mutates (HdrWrite q) p = (q = p)"
| "mutates (MarkDirty q) p = (q = p)"
| "mutates _ p = False"

type_synonym pin_table = "((FilePtr \<times> int) \<times> PagePtr \<times> bool) list"

definition pin :: "FilePtr \<Rightarrow> int \<Rightarrow> PagePtr \<Rightarrow> Status \<Rightarrow> pin_table \<Rightarrow> pin_table" where
  "pin f pn p st ps =
     (if st = OK \<and> map_of ps (f, pn) = None then ((f, pn), p, False) # ps else ps)"

fun unpin_rule :: "pin_table \<Rightarrow> Call list \<Rightarrow> bool" where
  "unpin_rule ps [] = True"
| "unpin_rule ps (AllocPage f pn p st # cs) = unpin_rule (pin f pn p st ps) cs"
| "unpin_rule ps (ReadPage f pn p st # cs) = unpin_rule (pin f pn p st ps) cs"
| "unpin_rule ps (UnPinPage f pn d st # cs) =
     (case map_of ps (f, pn) of
        None \<Rightarrow> unpin_rule ps cs
      | Some (p, changed) \<Rightarrow>
          d = changed \<and>
          unpin_rule (if st = OK then filter (\<lambda>e. fst e \<noteq> (f, pn)) ps else ps) cs)"
| "unpin_rule ps (c # cs) =
     unpin_rule (map (\<lambda>(k, p, changed). (k, p, changed \<or> mutates c p)) ps) cs"

subsection \<open>Runs on the instance\<close>

text \<open>
  Pages of 32 bytes with 20 bytes of overhead hold three records of four bytes; file
  names have room for 50 characters.
  \<open>insertAll\<close> inserts records one after the other as long as \<^verbatim>\<open>insertRecord\<close>
  returns \<open>OK\<close>; \<open>load_file\<close> creates a heap file, opens an \<^verbatim>\<open>InsertFileScan\<close> on it,
  inserts the records and destroys the scan.
\<close>

definition env32 :: "World Env" where
  "env32 = minirel 32 20 50 (\<lambda>_ _. FZero)"

definition int_rec :: "byte \<Rightarrow> Record" where
  "int_rec b = \<lparr>data_rec = [b, 0, 0, 0], length_rec = 4\<rparr>"

fun insertAll ::
  "'w Env \<Rightarrow> Record list \<Rightarrow> 'a HeapFile_scheme \<Rightarrow> 'w Mach \<Rightarrow>
   ('a HeapFile_scheme \<times> 'w Mach) option" where
  "insertAll env [] h m = Some (h, m)"
| "insertAll env (r # rs) h m =
     (case insertRecord env r (uninit_rid env) h m of
        (st, rid, h', m') \<Rightarrow> if st = OK then insertAll env rs h' m' else None)"

definition create_open ::
  "'w Env \<Rightarrow> string \<Rightarrow> 'w Mach \<Rightarrow> (HeapFile \<times> 'w Mach) option" where
  "create_open env name m0 =
     (case createHeapFile env name m0 of (st, m) \<Rightarrow>
      if st \<noteq> OK then None else
      (case InsertFileScan_ctor env name OK raw_file m of (st, h, m) \<Rightarrow>
       if st \<noteq> OK then None else Some (h, m)))"

definition create_insert ::
  "'w Env \<Rightarrow> string \<Rightarrow> Record list \<Rightarrow> 'w Mach \<Rightarrow> (HeapFile \<times> 'w Mach) option" where
  "create_insert env name recs m0 =
     (case create_open env name m0 of None \<Rightarrow> None
      | Some (h, m) \<Rightarrow> insertAll env recs h m)"

definition load_file :: "'w Env \<Rightarrow> string \<Rightarrow> Record list \<Rightarrow> 'w Mach \<Rightarrow> 'w Mach option" where
  "load_file env name recs m0 =
     (case create_insert env name recs m0 of None \<Rightarrow> None
      | Some (h, m) \<Rightarrow> Some (snd (InsertFileScan_dtor env h m)))"

text \<open>The file \<open>t\<close> with the records 1, 2, 1 on its only data page, page 2.\<close>

definition file3 :: "World Mach" where
  "file3 = start (world (the (load_file env32 ''t'' [int_rec 1, int_rec 2, int_rec 1]
                                (start (empty_world 4)))))"

text \<open>
  A scan of \<open>t\<close> for the records whose first four bytes are the integer 1, after
  \<^verbatim>\<open>getRecord\<close> of the record in slot 0 of page 2: that record is the current one.
\<close>

definition scan_eq1 :: "HeapFileScan \<times> World Mach" where
  "scan_eq1 =
     (case HeapFileScan_ctor env32 ''t'' OK raw_scan file3 of (_, h, m) \<Rightarrow>
      case startScan 0 4 INTEGER (Some [1, 0, 0, 0]) EQ h of (_, h) \<Rightarrow>
      case getRecord env32 \<lparr>pageNo = 2, slotNo = 0\<rparr> (uninit_rec env32) h m of
        (_, _, h, m) \<Rightarrow> (h, start (world m)))"



text \<open>\<^verbatim>\<open>markScan\<close>, one \<^verbatim>\<open>scanNext\<close>, \<^verbatim>\<open>resetScan\<close>, from \<open>scan_eq1\<close>.\<close>

definition scan_reset :: "HeapFileScan \<times> World Mach" where
  "scan_reset =
     (case markScan (fst scan_eq1) of (_, h) \<Rightarrow>
      case the (scanNext 1 env32 NULLRID h (snd scan_eq1)) of (_, _, h, m) \<Rightarrow>
      case resetScan env32 h m of (_, h, m) \<Rightarrow> (h, start (world m)))"

text \<open>An \<^verbatim>\<open>InsertFileScan\<close> just opened on \<open>t\<close>.\<close>

definition insert_open :: "HeapFile \<times> World Mach" where
  "insert_open =
     (case InsertFileScan_ctor env32 ''t'' OK raw_file file3 of (_, h, m) \<Rightarrow> (h, m))"

text \<open>The state \<^verbatim>\<open>createHeapFile\<close> leaves when it returns \<open>OK\<close>.\<close>

definition created :: "'w Env \<Rightarrow> string \<Rightarrow> 'w Mach \<Rightarrow> 'w Mach option" where
  "created env name m0 =
     (case createHeapFile env name m0 of (st, m) \<Rightarrow> if st = OK then Some m else None)"

text \<open>
  An \<^verbatim>\<open>InsertFileScan\<close> on a file just created, in a pool of four frames: opened,
  after one \<^verbatim>\<open>insertRecord\<close>, and destroyed.
\<close>

definition new_file :: "World Mach" where
  "new_file = the (created env32 ''t'' (start (empty_world 4)))"

definition new_open :: "HeapFile \<times> World Mach" where
  "new_open =
     (case InsertFileScan_ctor env32 ''t'' OK raw_file new_file of (_, h, m) \<Rightarrow> (h, m))"

definition new_insert :: "Status \<times> RID \<times> HeapFile \<times> World Mach" where
  "new_insert = insertRecord env32 (int_rec 1) NULLRID (fst new_open) (snd new_open)"

definition new_closed :: "World Mach" where
  "new_closed =
     (case new_insert of (_, _, h, m) \<Rightarrow> snd (InsertFileScan_dtor env32 h m))"

subsection \<open>The chain of data pages\<close>

text \<open>
  \<open>the_page w p\<close> is page \<open>p\<close> as the store has it: the frame when the page is in the
  pool, the page on disk when it is not.  \<open>nextOf w p\<close> is its \<^verbatim>\<open>nextPage\<close> link.
  \<open>chain_end nx p n\<close> follows the links from page \<open>p\<close> through exactly \<open>n\<close> pages and
  gives the last of them, provided that one, and none before it, has the link -1.
  \<open>chain_ok w hp\<close> reads the header on page \<open>hp\<close>: the chain that starts at
  \<^verbatim>\<open>firstPage\<close> has exactly \<^verbatim>\<open>pageCnt\<close> pages and ends at \<^verbatim>\<open>lastPage\<close>.
\<close>

definition the_page :: "World \<Rightarrow> int \<Rightarrow> PageSt option" where
  "the_page w p =
     (if p < 0 then None
      else case pages w (nat p) of Some pg \<Rightarrow> Some pg | None \<Rightarrow> disk w (nat p))"

definition nextOf :: "World \<Rightarrow> int \<Rightarrow> int option" where
  "nextOf w p = map_option nextPage (the_page w p)"

fun chain_end :: "(int \<Rightarrow> int option) \<Rightarrow> int \<Rightarrow> nat \<Rightarrow> int option" where
  "chain_end nx p 0 = None"
| "chain_end nx p (Suc n) =
     (case nx p of
        None \<Rightarrow> None
      | Some q \<Rightarrow> if q = -1 then (if n = 0 then Some p else None) else chain_end nx q n)"

definition chain_ok :: "World \<Rightarrow> int \<Rightarrow> bool" where
  "chain_ok w hp =
     (case the_page w hp of
        None \<Rightarrow> False
      | Some pg \<Rightarrow>
          chain_end (nextOf w) (firstPage (hdrv pg)) (nat (pageCnt (hdrv pg)))
            = Some (lastPage (hdrv pg)))"

text \<open>
  One \<^verbatim>\<open>InsertFileScan\<close> from its construction to its destruction, inserting the
  given records; \<open>None\<close> unless the constructor and every \<^verbatim>\<open>insertRecord\<close> return
  \<open>OK\<close>.
\<close>

definition inserted :: "'w Env \<Rightarrow> string \<Rightarrow> Record list \<Rightarrow> 'w Mach \<Rightarrow> 'w Mach option" where
  "inserted env name recs m0 =
     (case InsertFileScan_ctor env name OK raw_file m0 of (st, h, m) \<Rightarrow>
      if st \<noteq> OK then None else
      (case insertAll env recs h m of
         None \<Rightarrow> None
       | Some (h, m) \<Rightarrow> Some (snd (InsertFileScan_dtor env h m))))"

text \<open>
  A store with a pool of three frames.  The heap file \<open>t\<close> is created (header on
  page 1, data page 2) and gets three records, which fill page 2; a heap file \<open>u\<close>
  is created (pages 3 and 4); \<open>t\<close> gets a fourth record through a second
  \<^verbatim>\<open>InsertFileScan\<close>; a heap file \<open>v\<close> is created (pages 6 and 7).
\<close>

definition t_made :: "World Mach" where
  "t_made = the (created env32 ''t'' (start (empty_world 3)))"

definition t_full :: "World Mach" where
  "t_full = the (inserted env32 ''t'' [int_rec 1, int_rec 2, int_rec 1] t_made)"

definition u_made :: "World Mach" where
  "u_made = the (created env32 ''u'' t_full)"

definition t_grown :: "World Mach" where
  "t_grown = the (inserted env32 ''t'' [int_rec 3] u_made)"

definition v_made :: "World Mach" where
  "v_made = the (created env32 ''v'' t_grown)"

text \<open>What a \<^verbatim>\<open>HeapFile\<close> opened on a file finds: its header and the link of its first page.\<close>

definition opened ::
  "'w Env \<Rightarrow> string \<Rightarrow> 'w Mach \<Rightarrow> Status \<times> FileHdrPage \<times> Status \<times> int" where
  "opened env name m0 =
     (case HeapFile_ctor env name OK raw_file m0 of (st, h, m) \<Rightarrow>
        (st, hdr env (headerPage h) m, e_getNextPage env (curPage h) 0 (world m)))"

text \<open>A scan with an \<open>INTEGER\<close> filter at offset 0.\<close>

definition int_scan :: "byte list \<Rightarrow> Operator \<Rightarrow> HeapFileScan" where
  "int_scan fltr opr =
     raw_scan\<lparr>offset_scan := 0, length_scan := 4, type_scan := INTEGER,
              filter_scan := Some fltr, op_scan := opr\<rparr>"

section \<open>Properties\<close>

subsection \<open>Auxiliary facts\<close>

lemmas wrap_defs = db_createFile_def db_openFile_def db_closeFile_def db_destroyFile_def
  File_getFirstPage_def bufMgr_allocPage_def bufMgr_readPage_def bufMgr_unPinPage_def
  Page_init_def Page_getNextPage_def Page_setNextPage_def Page_firstRecord_def
  Page_nextRecord_def Page_getRecord_def Page_insertRecord_def Page_deleteRecord_def
  hdr_def hdr_upd_def step_def



subsection \<open>scanNext\<close>

text \<open>
  C1.  In \<^verbatim>\<open>scanNext\<close> the record handed to \<^verbatim>\<open>matchRec\<close> should be the one at the
  tentative RID.  The code fetches it with \<^verbatim>\<open>getRecord(rec)\<close>, which reads at \<^verbatim>\<open>curRec\<close>,
  and assigns \<^verbatim>\<open>curRec = tmpRid\<close> only afterwards.  On the file \<open>t\<close> (records 1, 2, 1
  in slots 0, 1, 2 of page 2), scanning for records equal to 1 with the record in
  slot 0 current: \<^verbatim>\<open>scanNext\<close> asks for the record after slot 0, fetches the record of
  slot 0 again, finds that it matches, and returns \<open>OK\<close> with the RID of slot 1, whose
  record is 2 and does not match.
\<close>

theorem scanNext_matches_the_previous_record:
  "curRec (fst scan_eq1) = \<lparr>pageNo = 2, slotNo = 0\<rparr> \<and>
   map_option (\<lambda>(st, rid, h, m). (st, rid, curRec h, calls_since (snd scan_eq1) m))
      (scanNext 1 env32 NULLRID (fst scan_eq1) (snd scan_eq1))
     = Some (OK, \<lparr>pageNo = 2, slotNo = 1\<rparr>, \<lparr>pageNo = 2, slotNo = 1\<rparr>,
             [NextRecord (Frame 2) \<lparr>pageNo = 2, slotNo = 0\<rparr> OK,
              GetRecord (Frame 2) \<lparr>pageNo = 2, slotNo = 0\<rparr> OK]) \<and>
   e_getRecord env32 (Frame 2) \<lparr>pageNo = 2, slotNo = 0\<rparr> (uninit_rec env32)
       (world (snd scan_eq1)) = (OK, int_rec 1) \<and>
   e_getRecord env32 (Frame 2) \<lparr>pageNo = 2, slotNo = 1\<rparr> (uninit_rec env32)
       (world (snd scan_eq1)) = (OK, int_rec 2) \<and>
   matchRec (e_fsub env32) (fst scan_eq1) (int_rec 1) \<and>
   \<not> matchRec (e_fsub env32) (fst scan_eq1) (int_rec 2)"
  by code_simp








subsection \<open>markScan and resetScan\<close>

lemma resetScan_same_page:
  "markedPageNo h = curPageNo h \<Longrightarrow> resetScan env h m = (OK, h\<lparr>curRec := markedRec h\<rparr>, m)"
  by (simp add: resetScan_def)

lemma resetScan_other_page:
  "markedPageNo h \<noteq> curPageNo h \<Longrightarrow> curPage h \<noteq> NULL \<Longrightarrow>
   e_unPinPage env (filePtr h) (curPageNo h) (curDirtyFlag h) (world m) = (OK, w1) \<Longrightarrow>
   e_readPage env (filePtr h) (markedPageNo h) (curPage h) w1 = (OK, p, w2) \<Longrightarrow>
   resetScan env h m =
     (OK, h\<lparr>curPageNo := markedPageNo h, curRec := markedRec h, curPage := p,
            curDirtyFlag := False\<rparr>,
      \<lparr>world = w2,
       trace = trace m @ [UnPinPage (filePtr h) (curPageNo h) (curDirtyFlag h) OK,
                          ReadPage (filePtr h) (markedPageNo h) p OK]\<rparr>)"
  by (simp add: resetScan_def wrap_defs)

text \<open>
  C6.  After \<^verbatim>\<open>markScan\<close>, some calls of \<^verbatim>\<open>scanNext\<close> and \<^verbatim>\<open>resetScan\<close>, the next
  \<^verbatim>\<open>scanNext\<close> should return the first matching record after the marked one.
  \<^verbatim>\<open>resetScan\<close> does restore the cursor (the two lemmas above), but \<^verbatim>\<open>scanNext\<close> then
  tests the record at the restored \<^verbatim>\<open>curRec\<close> instead of the one it moves to.  On \<open>t\<close>,
  marked at slot 0 and reset after one \<^verbatim>\<open>scanNext\<close>, the next \<^verbatim>\<open>scanNext\<close> returns slot 1
  (record 2, no match); the first matching record after the mark is in slot 2.
\<close>

theorem scanNext_after_resetScan:
  "curRec (fst scan_reset) = \<lparr>pageNo = 2, slotNo = 0\<rparr> \<and>
   markedRec (fst scan_reset) = \<lparr>pageNo = 2, slotNo = 0\<rparr> \<and>
   map_option (\<lambda>(st, rid, h, m). (st, rid))
      (scanNext 1 env32 NULLRID (fst scan_reset) (snd scan_reset))
     = Some (OK, \<lparr>pageNo = 2, slotNo = 1\<rparr>) \<and>
   e_getRecord env32 (Frame 2) \<lparr>pageNo = 2, slotNo = 1\<rparr> (uninit_rec env32)
       (world (snd scan_reset)) = (OK, int_rec 2) \<and>
   \<not> matchRec (e_fsub env32) (fst scan_reset) (int_rec 2) \<and>
   e_getRecord env32 (Frame 2) \<lparr>pageNo = 2, slotNo = 2\<rparr> (uninit_rec env32)
       (world (snd scan_reset)) = (OK, int_rec 1) \<and>
   matchRec (e_fsub env32) (fst scan_reset) (int_rec 1)"
  by code_simp

subsection \<open>createHeapFile\<close>

text \<open>
  C2.  Every failing call inside \<^verbatim>\<open>createHeapFile\<close> should end it with that call's
  status.  The second \<^verbatim>\<open>allocPage\<close> is the exception: its status is not kept.  With a
  buffer pool of one frame the second \<^verbatim>\<open>allocPage\<close> fails with \<open>BUFFEREXCEEDED\<close>;
  \<^verbatim>\<open>createHeapFile\<close> goes on, initialises the header page as a data page, unpins
  twice, and returns the status of the second unpin.
\<close>

theorem createHeapFile_second_allocPage:
  "(case createHeapFile env32 ''t'' (start (empty_world 1)) of (st, m) \<Rightarrow> (st, trace m)) =
      (HASHNOTFOUND,
       [OpenFile ''t'' UNIXERR, CreateFile ''t'' OK, OpenFile ''t'' OK,
        AllocPage 1 1 (Frame 1) OK, AllocPage 1 0 (Frame 1) BUFFEREXCEEDED,
        PageInit (Frame 1) 0, HdrWrite (Frame 1), UnPinPage 1 1 True OK,
        UnPinPage 1 0 True HASHNOTFOUND])"
  by code_simp

text \<open>
  C8.  \<^verbatim>\<open>createHeapFile\<close> on an existing name should change nothing.  It returns
  \<open>FILEEXISTS\<close> after one call, the \<^verbatim>\<open>openFile\<close> that succeeded, and never closes the
  file it opened: on \<open>t\<close>, closed before the call, the open count is 1 after it.
\<close>

theorem createHeapFile_leaves_file_open:
  "(case createHeapFile env32 ''t'' file3 of
      (st, m) \<Rightarrow> (st, trace m, openCnt (world file3) 1, openCnt (world m) 1))
   = (FILEEXISTS, [OpenFile ''t'' OK], 0, 1)"
  by code_simp

subsection \<open>startScan and matchRec\<close>

text \<open>
  C9.  \<^verbatim>\<open>startScan\<close> with a null filter clears the filter of the scan and returns \<open>OK\<close>
  whatever the other arguments are; with a filter, a negative offset, a length below
  1, a type that is not \<open>STRING\<close>, \<open>INTEGER\<close> or \<open>FLOAT\<close>, an \<open>INTEGER\<close> or \<open>FLOAT\<close>
  whose length is not the width of the type, or an operator outside the six
  comparisons gives \<open>BADSCANPARM\<close> and leaves the scan as it was.
\<close>

theorem startScan_validation:
  "(filter' = None \<longrightarrow>
      startScan offset' length' type' filter' op' h = (OK, h\<lparr>filter_scan := None\<rparr>)) \<and>
   (filter' \<noteq> None \<and>
      (offset' < 0 \<or> length' < 1 \<or> type' \<notin> {STRING, INTEGER, FLOAT}
       \<or> (type' = INTEGER \<and> length' \<noteq> sizeof_int)
       \<or> (type' = FLOAT \<and> length' \<noteq> sizeof_float)
       \<or> op' \<notin> {LT, LTE, EQ, GTE, GT, NE}) \<longrightarrow>
      startScan offset' length' type' filter' op' h = (BADSCANPARM, h))"
  by (auto simp: startScan_def)

theorem startScan_validation_witness:
  "startScan 8 2 INTEGER None (BadOperator 9) raw_scan = (OK, raw_scan\<lparr>filter_scan := None\<rparr>) \<and>
   startScan 0 2 INTEGER (Some [1, 0]) EQ raw_scan = (BADSCANPARM, raw_scan) \<and>
   startScan (-1) 4 INTEGER (Some [1, 0, 0, 0]) EQ raw_scan = (BADSCANPARM, raw_scan) \<and>
   startScan 0 0 STRING (Some [1]) EQ raw_scan = (BADSCANPARM, raw_scan) \<and>
   startScan 0 4 (BadDatatype 3) (Some [1, 0, 0, 0]) EQ raw_scan = (BADSCANPARM, raw_scan) \<and>
   startScan 0 4 INTEGER (Some [1, 0, 0, 0]) (BadOperator 6) raw_scan = (BADSCANPARM, raw_scan)"
  using startScan_validation [of None 8 2 INTEGER "BadOperator 9" raw_scan]
        startScan_validation [of "Some [1, 0]" 0 2 INTEGER EQ raw_scan]
        startScan_validation [of "Some [1, 0, 0, 0]" "-1" 4 INTEGER EQ raw_scan]
        startScan_validation [of "Some [1]" 0 0 STRING EQ raw_scan]
        startScan_validation [of "Some [1, 0, 0, 0]" 0 4 "BadDatatype 3" EQ raw_scan]
        startScan_validation [of "Some [1, 0, 0, 0]" 0 4 INTEGER "BadOperator 6" raw_scan]
  by (simp add: sizeof_int_def)

text \<open>
  C5.  For \<open>INTEGER\<close>, \<^verbatim>\<open>matchRec\<close> should compare attribute and filter exactly.  It
  compares \<^verbatim>\<open>iattr - ifltr\<close> with zero, and that \<^verbatim>\<open>int\<close> subtraction overflows: the
  attribute 2139062143 (bytes 7F 7F 7F 7F) is greater than the filter -2139062144
  (bytes 80 80 80 80), the 32-bit difference is -16843009, and \<^verbatim>\<open>matchRec\<close> answers false for
  \<open>GT\<close>.
\<close>

theorem matchRec_integer_overflow:
  "matchRec fs (int_scan [0x80, 0x80, 0x80, 0x80] GT)
      \<lparr>data_rec = [0x7F, 0x7F, 0x7F, 0x7F], length_rec = 4\<rparr> = False \<and>
   sint (memcpy_int [0x7F, 0x7F, 0x7F, 0x7F] 4) = 2139062143 \<and>
   sint (memcpy_int [0x80, 0x80, 0x80, 0x80] 4) = - 2139062144 \<and>
   sint (memcpy_int [0x7F, 0x7F, 0x7F, 0x7F] 4 - memcpy_int [0x80, 0x80, 0x80, 0x80] 4) = - 16843009"
  by (simp add: matchRec_def int32_def int_scan_def raw_scan_def memcpy_int_def float_of_int_def)

subsection \<open>insertRecord\<close>

lemma unsigned_int_gt:
  assumes "- (2 ^ 31) \<le> l" "l < 2 ^ 31" "0 \<le> c" "c < 2 ^ 31"
  shows "(unsigned_int l > unsigned_int c) = (l > c \<or> l < 0)"
proof -
  have c: "unsigned_int c = c"
    unfolding unsigned_int_def using assms by (intro mod_pos_pos_trivial) simp_all
  show ?thesis
  proof (cases "l < 0")
    case True
    have "(l + 2 ^ 32) mod 2 ^ 32 = l + 2 ^ 32"
      using assms True by (intro mod_pos_pos_trivial) simp_all
    then have "unsigned_int l = l + 4294967296"
      unfolding unsigned_int_def by simp
    then show ?thesis using c assms True by simp
  next
    case False
    have "unsigned_int l = l"
      unfolding unsigned_int_def using assms False by (intro mod_pos_pos_trivial) simp_all
    then show ?thesis using c False by simp
  qed
qed

lemma insertRecord_status:
  "\<not> unsigned_int (length_rec rec) > unsigned_int (PAGESIZE env - DPFIXED env) \<Longrightarrow>
   insertRecord env rec rid h m = (st, rid', h', m') \<Longrightarrow>
   st = OK \<or> (calls_since m m' \<noteq> [] \<and> status_of (last (calls_since m m')) = Some st)"
  unfolding insertRecord_def wrap_defs calls_since_def
  by (auto simp: Let_def split: prod.splits if_splits sum.splits)

text \<open>
  C7, as the code has it.  The test is made on \<^verbatim>\<open>unsigned int\<close>, so \<^verbatim>\<open>insertRecord\<close>
  rejects a record with \<open>INVALIDRECLEN\<close>, before any call and without any change,
  exactly when its length exceeds \<open>PAGESIZE - DPFIXED\<close> or is negative.  For the other
  lengths, \<open>PAGESIZE - DPFIXED\<close> among them, \<^verbatim>\<open>insertRecord\<close> returns \<open>OK\<close> or the status
  of the last call it made into the layers below.
\<close>

theorem insertRecord_INVALIDRECLEN:
  assumes "- (2 ^ 31) \<le> length_rec rec" and "length_rec rec < 2 ^ 31"
    and "0 \<le> PAGESIZE env - DPFIXED env" and "PAGESIZE env - DPFIXED env < 2 ^ 31"
  shows "(PAGESIZE env - DPFIXED env < length_rec rec \<or> length_rec rec < 0 \<longrightarrow>
            insertRecord env rec rid h m = (INVALIDRECLEN, rid, h, m)) \<and>
         (0 \<le> length_rec rec \<and> length_rec rec \<le> PAGESIZE env - DPFIXED env \<longrightarrow>
            (let r = insertRecord env rec rid h m; m' = snd (snd (snd r)) in
             fst r = OK \<or>
             (calls_since m m' \<noteq> [] \<and> status_of (last (calls_since m m')) = Some (fst r))))"
proof (intro conjI impI)
  assume "PAGESIZE env - DPFIXED env < length_rec rec \<or> length_rec rec < 0"
  with unsigned_int_gt [OF assms]
  have "unsigned_int (length_rec rec) > unsigned_int (PAGESIZE env - DPFIXED env)" by simp
  then show "insertRecord env rec rid h m = (INVALIDRECLEN, rid, h, m)"
    by (simp add: insertRecord_def)
next
  assume "0 \<le> length_rec rec \<and> length_rec rec \<le> PAGESIZE env - DPFIXED env"
  with unsigned_int_gt [OF assms]
  have no: "\<not> unsigned_int (length_rec rec) > unsigned_int (PAGESIZE env - DPFIXED env)"
    by simp
  obtain st rid' h' m' where r: "insertRecord env rec rid h m = (st, rid', h', m')"
    by (cases "insertRecord env rec rid h m")
  from insertRecord_status [OF no r] r
  show "let r = insertRecord env rec rid h m; m' = snd (snd (snd r)) in
        fst r = OK \<or>
        (calls_since m m' \<noteq> [] \<and> status_of (last (calls_since m m')) = Some (fst r))"
    by (simp add: Let_def)
qed

theorem insertRecord_INVALIDRECLEN_witness:
  "insertRecord env32 \<lparr>data_rec = [], length_rec = 13\<rparr> NULLRID (fst insert_open)
      (snd insert_open) = (INVALIDRECLEN, NULLRID, fst insert_open, snd insert_open) \<and>
   fst (insertRecord env32 \<lparr>data_rec = [], length_rec = 12\<rparr> NULLRID (fst insert_open)
      (snd insert_open)) = OK"
proof -
  have p: "PAGESIZE env32 - DPFIXED env32 = 12"
    by code_simp
  let ?r = "insertRecord env32 \<lparr>data_rec = [], length_rec = 12\<rparr> NULLRID (fst insert_open)
      (snd insert_open)"
  have ok: "fst ?r = OK"
    by code_simp
  from insertRecord_INVALIDRECLEN [where env = env32 and rec = "\<lparr>data_rec = [], length_rec = 13\<rparr>"
      and rid = NULLRID and h = "fst insert_open" and m = "snd insert_open"]
    insertRecord_INVALIDRECLEN [where env = env32 and rec = "\<lparr>data_rec = [], length_rec = 12\<rparr>"
      and rid = NULLRID and h = "fst insert_open" and m = "snd insert_open"]
  show ?thesis
    by (simp add: p ok)
qed

text \<open>
  C7 as stated fails: a record whose length is -1 does not exceed
  \<open>PAGESIZE - DPFIXED\<close>, and is rejected with \<open>INVALIDRECLEN\<close>.
\<close>

theorem insertRecord_negative_length:
  "fst (insertRecord env32 \<lparr>data_rec = [], length_rec = - 1\<rparr> NULLRID
          (fst insert_open) (snd insert_open)) = INVALIDRECLEN \<and>
   \<not> (PAGESIZE env32 - DPFIXED env32 < length_rec \<lparr>data_rec = [], length_rec = - 1\<rparr>)"
  by code_simp

subsection \<open>Unpinning and the dirty flags\<close>

text \<open>
  C3.  Every unpin should pass \<open>dirty = true\<close> exactly when the heap layer changed the
  page since it pinned it.  \<^verbatim>\<open>insertRecord\<close> increments \<^verbatim>\<open>recCnt\<close> on the header page
  and, outside its \<open>NOSPACE\<close> branch, leaves \<^verbatim>\<open>hdrDirtyFlag\<close> as it is; \<^verbatim>\<open>deleteRecord\<close>
  and the \<open>NOSPACE\<close> branch set the flag with their changes of the header.  An
  \<^verbatim>\<open>InsertFileScan\<close> on the new file \<open>t\<close> inserts one record: \<^verbatim>\<open>recCnt\<close> goes from 0 to 1,
  \<^verbatim>\<open>hdrDirtyFlag\<close> stays false, and the destructor unpins the header page, page 1, with
  \<open>dirty = false\<close>.  The log keeps the unpin rule up to the unpin of the data page and
  breaks it at the unpin of the header page.
\<close>

theorem insertRecord_leaves_hdrDirtyFlag:
  "fst new_insert = OK \<and>
   recCnt (hdr env32 (headerPage (fst new_open)) (snd new_open)) = 0 \<and>
   recCnt (hdr env32 (headerPage (fst (snd (snd new_insert)))) (snd (snd (snd new_insert)))) = 1 \<and>
   \<not> hdrDirtyFlag (fst (snd (snd new_insert))) \<and>
   calls_since new_file new_closed =
     [OpenFile ''t'' OK, GetFirstPage 1 OK, ReadPage 1 1 (Frame 1) OK,
      ReadPage 1 2 (Frame 2) OK, InsertRecord (Frame 2) (int_rec 1) OK, HdrWrite (Frame 1),
      UnPinPage 1 2 True OK, UnPinPage 1 1 False OK, CloseFile 1 OK] \<and>
   unpin_rule [] (take 7 (calls_since new_file new_closed)) \<and>
   \<not> unpin_rule [] (calls_since new_file new_closed)"
  by code_simp

text \<open>
  \<^verbatim>\<open>~InsertFileScan\<close> passes the constant \<^verbatim>\<open>true\<close> where \<^verbatim>\<open>~HeapFile\<close> and \<^verbatim>\<open>endScan\<close>
  pass \<^verbatim>\<open>curDirtyFlag\<close>: an \<^verbatim>\<open>InsertFileScan\<close> opened on the file \<open>t\<close> of three records
  and destroyed at once pins page 2, changes nothing, and unpins page 2 with
  \<open>dirty = true\<close>.
\<close>

lemma InsertFileScan_dtor_unpins_dirty:
  "curDirtyFlag (fst insert_open) = False \<and>
   calls_since file3 (snd (InsertFileScan_dtor env32 (fst insert_open) (snd insert_open))) =
     [OpenFile ''t'' OK, GetFirstPage 1 OK, ReadPage 1 1 (Frame 1) OK,
      ReadPage 1 2 (Frame 2) OK, UnPinPage 1 2 True OK, UnPinPage 1 1 False OK,
      CloseFile 1 OK] \<and>
   \<not> unpin_rule []
        (calls_since file3 (snd (InsertFileScan_dtor env32 (fst insert_open) (snd insert_open))))"
  by code_simp

subsection \<open>pageCnt and the chain of data pages\<close>

text \<open>
  C4.  \<^verbatim>\<open>pageCnt\<close> should always be the number of pages of the chain from \<^verbatim>\<open>firstPage\<close>
  along the links to \<^verbatim>\<open>lastPage\<close>.  The \<open>NOSPACE\<close> branch of \<^verbatim>\<open>insertRecord\<close> writes
  the link to the new page into the current page with \<^verbatim>\<open>setNextPage\<close> and then unpins
  that page with \<^verbatim>\<open>curDirtyFlag\<close>, which it has not set; the flag is false when this
  \<^verbatim>\<open>InsertFileScan\<close> has found the page full.  In the store with three frames every
  \<^verbatim>\<open>createHeapFile\<close>, constructor and \<^verbatim>\<open>insertRecord\<close> returns \<open>OK\<close>, and the chain of
  \<open>t\<close> is right after the creation of \<open>t\<close>, after its first three records, after the
  creation of \<open>u\<close> and after the fourth record.  For that record page 2 is full: page
  5 is allocated, the frame of page 2 gets the link 5 and is unpinned with
  \<open>dirty = false\<close>, and the header gets \<open>lastPage = 5\<close> and \<open>pageCnt = 2\<close>.  The
  creation of \<open>v\<close> needs the frame of page 2, which is dropped as it is, its dirty
  bit being clear.  From then on the link of page 2 is -1 again: the chain from
  \<^verbatim>\<open>firstPage\<close> has one page and does not reach \<^verbatim>\<open>lastPage\<close>, and that is what a
  \<^verbatim>\<open>HeapFile\<close> opened on \<open>t\<close> finds.
\<close>

theorem insertRecord_unpins_linked_page_clean:
  "(case created env32 ''t'' (start (empty_world 3)) of None \<Rightarrow> False | Some _ \<Rightarrow> True) \<and>
   (case inserted env32 ''t'' [int_rec 1, int_rec 2, int_rec 1] t_made of
      None \<Rightarrow> False | Some _ \<Rightarrow> True) \<and>
   (case created env32 ''u'' t_full of None \<Rightarrow> False | Some _ \<Rightarrow> True) \<and>
   (case inserted env32 ''t'' [int_rec 3] u_made of None \<Rightarrow> False | Some _ \<Rightarrow> True) \<and>
   (case created env32 ''v'' t_grown of None \<Rightarrow> False | Some _ \<Rightarrow> True) \<and>
   chain_ok (world t_made) 1 \<and> chain_ok (world t_full) 1 \<and> chain_ok (world u_made) 1 \<and>
   chain_ok (world t_grown) 1 \<and> \<not> chain_ok (world v_made) 1 \<and>
   calls_since u_made t_grown =
     [OpenFile ''t'' OK, GetFirstPage 1 OK, ReadPage 1 1 (Frame 1) OK,
      ReadPage 1 2 (Frame 2) OK, InsertRecord (Frame 2) (int_rec 3) NOSPACE,
      AllocPage 1 5 (Frame 5) OK, PageInit (Frame 5) 5, SetNextPage (Frame 2) 5,
      UnPinPage 1 2 False OK, InsertRecord (Frame 5) (int_rec 3) OK,
      HdrWrite (Frame 1), HdrWrite (Frame 1), UnPinPage 1 5 True OK,
      UnPinPage 1 1 True OK, CloseFile 1 OK] \<and>
   nextOf (world t_grown) 2 = Some 5 \<and> nextOf (world v_made) 2 = Some (-1) \<and>
   opened env32 ''t'' v_made =
     (OK, \<lparr>fileName = ''t'', firstPage = 2, lastPage = 5, pageCnt = 2, recCnt = 4\<rparr>, OK, -1)"
  by code_simp

end
